theory Spec2Isabelle
  imports Main
begin

section \<open>Signature declarations\<close>

text \<open>
  The three source files declare subclasses of \<^verbatim>\<open>dspy.Signature\<close>. A class body is a
  docstring (or none) followed by field declarations of the form
  \<^verbatim>\<open>name: hint = dspy.InputField(desc=...)\<close> or \<^verbatim>\<open>name = dspy.OutputField()\<close>.
  A class is embedded as the record of what its body writes down: the class name, the
  value of \<^verbatim>\<open>__doc__\<close> (\<open>None\<close> when the body has no docstring), and the field
  declarations in source order. A type hint is \<^verbatim>\<open>str\<close>, a \<^verbatim>\<open>Literal[...]\<close> of string
  values, or absent; \<^verbatim>\<open>desc\<close> is absent when the call passes no keyword.
\<close>

datatype annotation = Str | Literal "string list"

datatype field_kind = InputField | OutputField

record field_decl =
  field_name :: string
  annotation :: "annotation option"
  kind :: field_kind
  desc :: "string option"

record signature =
  class_name :: string
  doc :: "string option"
  body :: "field_decl list"

subsection \<open>guide/annotated\_examples.py\<close>

definition BasicQA :: signature where
  "BasicQA = \<lparr>class_name = ''BasicQA'',
     doc = Some (''Answer questions with short factoid answers.''),
     body = [
       \<lparr>field_name = ''question'', annotation = None, kind = InputField,
          desc = None\<rparr>,
       \<lparr>field_name = ''answer'', annotation = None, kind = OutputField,
          desc = None\<rparr>]\<rparr>"

definition DescriptiveQA :: signature where
  "DescriptiveQA = \<lparr>class_name = ''DescriptiveQA'',
     doc = Some (''Answer questions using provided context.'' @ [CHR 0x0A] @
                [CHR 0x0A] @
                ''    Focus on factual accuracy. Cite the context when possible.'' @ [CHR 0x0A] @
                ''    If the answer isn'' @ [CHR 0x27] @ ''t in the context, say so clearly.'' @ [CHR 0x0A] @
                ''    ''),
     body = [
       \<lparr>field_name = ''question'', annotation = Some Str, kind = InputField,
          desc = Some (''The user'' @ [CHR 0x27] @ ''s question to be answered'')\<rparr>,
       \<lparr>field_name = ''context'', annotation = Some Str, kind = InputField,
          desc = Some (''Relevant background information retrieved for this question'')\<rparr>,
       \<lparr>field_name = ''answer'', annotation = Some Str, kind = OutputField,
          desc = Some (''A concise, factual answer (1-3 sentences) based on the context'')\<rparr>]\<rparr>"

definition ProductionQA :: signature where
  "ProductionQA = \<lparr>class_name = ''ProductionQA'',
     doc = Some (''Answer questions with confidence assessment.'' @ [CHR 0x0A] @
                [CHR 0x0A] @
                ''    Requirements:'' @ [CHR 0x0A] @
                ''    - Use only provided context for answers'' @ [CHR 0x0A] @
                ''    - Indicate confidence level based on evidence quality'' @ [CHR 0x0A] @
                ''    - Quote exact text from context to support answer'' @ [CHR 0x0A] @
                ''    - If context is insufficient, explicitly state '' @ [CHR 0x22] @ ''Insufficient '' @
                ''information'' @ [CHR 0x22] @ [CHR 0x0A] @
                [CHR 0x0A] @
                ''    This signature is designed for high-reliability QA systems.'' @ [CHR 0x0A] @
                ''    ''),
     body = [
       \<lparr>field_name = ''question'', annotation = Some Str, kind = InputField,
          desc = Some (''User'' @ [CHR 0x27] @ ''s question (10-500 characters, well-formed)'')\<rparr>,
       \<lparr>field_name = ''context'', annotation = Some Str, kind = InputField,
          desc = Some (''Retrieved context passages (1-5 paragraphs of relevant information)'')\<rparr>,
       \<lparr>field_name = ''answer'', annotation = Some Str, kind = OutputField,
          desc = Some (''Direct answer (20-150 words). Must be based on context. Use '' @
                     [CHR 0x27] @ ''Insufficient information'' @ [CHR 0x27] @ '' if context doesn'' @ [CHR 0x27] @ ''t support an answer.'')\<rparr>,
       \<lparr>field_name = ''confidence'', annotation = Some (Literal [''high'', ''medium'', ''low'']), kind = OutputField,
          desc = Some (''Confidence level: high = direct evidence in context; medium = '' @
                     ''inferential from context; low = speculative or weak evidence'')\<rparr>,
       \<lparr>field_name = ''evidence'', annotation = Some Str, kind = OutputField,
          desc = Some (''Direct quote from context supporting the answer (exact substring match)'')\<rparr>]\<rparr>"

definition EmailClassifier :: signature where
  "EmailClassifier = \<lparr>class_name = ''EmailClassifier'',
     doc = Some (''Classify emails as spam or legitimate.'' @ [CHR 0x0A] @
                [CHR 0x0A] @
                ''    Consider: suspicious links, urgent language, grammar quality,'' @ [CHR 0x0A] @
                ''    sender reputation indicators, promotional content.'' @ [CHR 0x0A] @
                ''    ''),
     body = [
       \<lparr>field_name = ''email_subject'', annotation = Some Str, kind = InputField,
          desc = Some (''Email subject line'')\<rparr>,
       \<lparr>field_name = ''email_body'', annotation = Some Str, kind = InputField,
          desc = Some (''Email body content (up to 1000 chars)'')\<rparr>,
       \<lparr>field_name = ''classification'', annotation = Some (Literal [''spam'', ''legitimate'']), kind = OutputField,
          desc = Some (''Classification: spam or legitimate'')\<rparr>,
       \<lparr>field_name = ''reasoning'', annotation = Some Str, kind = OutputField,
          desc = Some (''Brief explanation of classification decision (1-2 sentences)'')\<rparr>]\<rparr>"

definition ArticleExtractor :: signature where
  "ArticleExtractor = \<lparr>class_name = ''ArticleExtractor'',
     doc = Some (''Extract structured information from news articles.'' @ [CHR 0x0A] @
                [CHR 0x0A] @
                ''    Parse article text and identify key components.'' @ [CHR 0x0A] @
                ''    Be precise - only extract what'' @ [CHR 0x27] @ ''s explicitly stated.'' @ [CHR 0x0A] @
                ''    ''),
     body = [
       \<lparr>field_name = ''article_text'', annotation = Some Str, kind = InputField,
          desc = Some (''Full article text'')\<rparr>,
       \<lparr>field_name = ''title'', annotation = Some Str, kind = OutputField,
          desc = Some (''Article title or headline (5-15 words)'')\<rparr>,
       \<lparr>field_name = ''author'', annotation = Some Str, kind = OutputField,
          desc = Some (''Author name, or '' @ [CHR 0x27] @ ''Unknown'' @ [CHR 0x27] @ '' if not mentioned'')\<rparr>,
       \<lparr>field_name = ''publication_date'', annotation = Some Str, kind = OutputField,
          desc = Some (''Publication date in YYYY-MM-DD format, or '' @ [CHR 0x27] @ ''Unknown'' @ [CHR 0x27])\<rparr>,
       \<lparr>field_name = ''summary'', annotation = Some Str, kind = OutputField,
          desc = Some (''Three-sentence summary of main points'')\<rparr>,
       \<lparr>field_name = ''category'', annotation = Some (Literal [''politics'', ''technology'', ''sports'', ''business'', ''other'']), kind = OutputField,
          desc = Some (''Primary article category'')\<rparr>,
       \<lparr>field_name = ''sentiment'', annotation = Some (Literal [''positive'', ''negative'', ''neutral'']), kind = OutputField,
          desc = Some (''Overall article sentiment/tone'')\<rparr>]\<rparr>"

definition SentimentV1 :: signature where
  "SentimentV1 = \<lparr>class_name = ''SentimentV1'',
     doc = Some (''Analyze sentiment.''),
     body = [
       \<lparr>field_name = ''text'', annotation = None, kind = InputField,
          desc = None\<rparr>,
       \<lparr>field_name = ''sentiment'', annotation = None, kind = OutputField,
          desc = None\<rparr>]\<rparr>"

definition SentimentV2 :: signature where
  "SentimentV2 = \<lparr>class_name = ''SentimentV2'',
     doc = Some (''Classify text sentiment as positive, negative, or neutral.''),
     body = [
       \<lparr>field_name = ''text'', annotation = Some Str, kind = InputField,
          desc = Some (''Text to analyze for sentiment'')\<rparr>,
       \<lparr>field_name = ''sentiment'', annotation = Some Str, kind = OutputField,
          desc = Some (''Sentiment: positive, negative, or neutral'')\<rparr>]\<rparr>"

definition SentimentV3 :: signature where
  "SentimentV3 = \<lparr>class_name = ''SentimentV3'',
     doc = Some (''Classify sentiment with confidence assessment.'' @ [CHR 0x0A] @
                [CHR 0x0A] @
                ''    Analyze emotional tone. Return neutral for ambiguous text.'' @ [CHR 0x0A] @
                ''    Consider word choice, punctuation, context.'' @ [CHR 0x0A] @
                ''    ''),
     body = [
       \<lparr>field_name = ''text'', annotation = Some Str, kind = InputField,
          desc = Some (''Input text for sentiment analysis (10-1000 characters)'')\<rparr>,
       \<lparr>field_name = ''sentiment'', annotation = Some (Literal [''positive'', ''negative'', ''neutral'']), kind = OutputField,
          desc = Some (''Overall emotional tone classification'')\<rparr>,
       \<lparr>field_name = ''confidence'', annotation = Some (Literal [''high'', ''medium'', ''low'']), kind = OutputField,
          desc = Some (''Classification confidence: high = clear indicators, medium = mixed '' @
                     ''signals, low = ambiguous'')\<rparr>,
       \<lparr>field_name = ''key_phrases'', annotation = Some Str, kind = OutputField,
          desc = Some (''Comma-separated phrases that influenced classification (3-5 phrases)'')\<rparr>]\<rparr>"

definition annotated_examples :: "signature list" where
  "annotated_examples =
     [BasicQA, DescriptiveQA, ProductionQA, EmailClassifier, ArticleExtractor,
      SentimentV1, SentimentV2, SentimentV3]"

subsection \<open>solution/solution.py\<close>

definition BlogTitleGenerator :: signature where
  "BlogTitleGenerator = \<lparr>class_name = ''BlogTitleGenerator'',
     doc = Some (''Generate an engaging blog post title from a topic.'' @ [CHR 0x0A] @
                [CHR 0x0A] @
                ''    Create titles that are attention-grabbing, clear, and relevant to '' @
                ''the topic.'' @ [CHR 0x0A] @
                ''    ''),
     body = [
       \<lparr>field_name = ''topic'', annotation = Some Str, kind = InputField,
          desc = None\<rparr>,
       \<lparr>field_name = ''title'', annotation = Some Str, kind = OutputField,
          desc = None\<rparr>]\<rparr>"

definition ProductReviewAnalyzer :: signature where
  "ProductReviewAnalyzer = \<lparr>class_name = ''ProductReviewAnalyzer'',
     doc = Some (''Analyze product reviews for sentiment, rating, and key points.'' @ [CHR 0x0A] @
                [CHR 0x0A] @
                ''    Extract structured insights from customer reviews to help product '' @
                ''teams'' @ [CHR 0x0A] @
                ''    understand customer feedback at scale.'' @ [CHR 0x0A] @
                ''    ''),
     body = [
       \<lparr>field_name = ''product_name'', annotation = Some Str, kind = InputField,
          desc = Some (''Name of the product being reviewed'')\<rparr>,
       \<lparr>field_name = ''review_text'', annotation = Some Str, kind = InputField,
          desc = Some (''Customer review text (10-500 words)'')\<rparr>,
       \<lparr>field_name = ''sentiment'', annotation = Some (Literal [''positive'', ''negative'', ''neutral'']), kind = OutputField,
          desc = Some (''Overall sentiment: positive (mostly praise), negative (mostly '' @
                     ''criticism), neutral (mixed/factual)'')\<rparr>,
       \<lparr>field_name = ''rating'', annotation = Some Str, kind = OutputField,
          desc = Some (''Predicted star rating (1-5 stars) based on review sentiment'')\<rparr>,
       \<lparr>field_name = ''key_points'', annotation = Some Str, kind = OutputField,
          desc = Some (''Comma-separated list of 3-5 main points from the review'')\<rparr>]\<rparr>"

definition MeetingNotesExtractor :: signature where
  "MeetingNotesExtractor = \<lparr>class_name = ''MeetingNotesExtractor'',
     doc = Some (''Extract structured information from meeting transcripts.'' @ [CHR 0x0A] @
                [CHR 0x0A] @
                ''    Parse meeting transcripts to identify:'' @ [CHR 0x0A] @
                ''    - Key decisions that were made'' @ [CHR 0x0A] @
                ''    - Action items with responsible parties'' @ [CHR 0x0A] @
                ''    - Next steps for the team'' @ [CHR 0x0A] @
                [CHR 0x0A] @
                ''    Edge Case Handling:'' @ [CHR 0x0A] @
                ''    - If no decisions were made, output '' @ [CHR 0x22] @ ''No formal decisions recorded'' @ [CHR 0x22] @ [CHR 0x0A] @
                ''    - If action items lack owners, note as '' @ [CHR 0x22] @ ''Owner: Unassigned'' @ [CHR 0x22] @ [CHR 0x0A] @
                ''    - If transcript is unclear/incomplete, set confidence to '' @ [CHR 0x27] @ ''low'' @ [CHR 0x27] @ [CHR 0x0A] @
                [CHR 0x0A] @
                ''    This signature supports both formal and casual meeting formats.'' @ [CHR 0x0A] @
                ''    ''),
     body = [
       \<lparr>field_name = ''transcript'', annotation = Some Str, kind = InputField,
          desc = Some (''Full meeting transcript or detailed notes (100-5000 words)'')\<rparr>,
       \<lparr>field_name = ''meeting_type'', annotation = Some Str, kind = InputField,
          desc = Some (''Type of meeting: formal, casual, standup, retrospective, etc. (optional '' @
                     ''context)'')\<rparr>,
       \<lparr>field_name = ''decisions'', annotation = Some Str, kind = OutputField,
          desc = Some (''Key decisions made, formatted as numbered list (1. Decision one, 2. '' @
                     ''Decision two, etc.). Use '' @ [CHR 0x27] @ ''No formal decisions recorded'' @ [CHR 0x27] @ '' if none '' @
                     ''identified.'')\<rparr>,
       \<lparr>field_name = ''action_items'', annotation = Some Str, kind = OutputField,
          desc = Some (''Action items with owners, formatted as: '' @ [CHR 0x27] @ ''- [Owner] Action description'' @ [CHR 0x27] @ ''. '' @
                     ''Use '' @ [CHR 0x27] @ ''[Unassigned]'' @ [CHR 0x27] @ '' if owner not mentioned. Example: '' @ [CHR 0x27] @ ''- [Alice] Update '' @
                     ''documentation by Friday'' @ [CHR 0x27])\<rparr>,
       \<lparr>field_name = ''next_steps'', annotation = Some Str, kind = OutputField,
          desc = Some (''Next steps for the team (3-5 bullet points). Each bullet should be '' @
                     ''actionable and specific.'')\<rparr>,
       \<lparr>field_name = ''confidence'', annotation = Some (Literal [''high'', ''medium'', ''low'']), kind = OutputField,
          desc = Some (''Extraction confidence: high = clear, detailed transcript; medium = some '' @
                     ''ambiguity or missing context; low = unclear, incomplete, or very short '' @
                     ''transcript'')\<rparr>]\<rparr>"

definition EmailResponseV1 :: signature where
  "EmailResponseV1 = \<lparr>class_name = ''EmailResponseV1'',
     doc = Some (''Generate an email response.''),
     body = [
       \<lparr>field_name = ''email'', annotation = None, kind = InputField,
          desc = None\<rparr>,
       \<lparr>field_name = ''response'', annotation = None, kind = OutputField,
          desc = None\<rparr>]\<rparr>"

definition EmailResponseV2 :: signature where
  "EmailResponseV2 = \<lparr>class_name = ''EmailResponseV2'',
     doc = Some (''Generate a professional email response based on incoming email.'' @ [CHR 0x0A] @
                [CHR 0x0A] @
                ''    Match the tone of the original email and be concise.'' @ [CHR 0x0A] @
                ''    ''),
     body = [
       \<lparr>field_name = ''email'', annotation = Some Str, kind = InputField,
          desc = Some (''Incoming email to respond to'')\<rparr>,
       \<lparr>field_name = ''context'', annotation = Some Str, kind = InputField,
          desc = Some (''Additional context or information to include in response'')\<rparr>,
       \<lparr>field_name = ''response'', annotation = Some Str, kind = OutputField,
          desc = Some (''Professional email response (2-4 paragraphs)'')\<rparr>,
       \<lparr>field_name = ''tone'', annotation = Some Str, kind = OutputField,
          desc = Some (''Tone of the response: formal, casual, friendly, business'')\<rparr>]\<rparr>"

definition EmailResponseV3 :: signature where
  "EmailResponseV3 = \<lparr>class_name = ''EmailResponseV3'',
     doc = Some (''Generate professional email responses with quality controls.'' @ [CHR 0x0A] @
                [CHR 0x0A] @
                ''    Create responses that:'' @ [CHR 0x0A] @
                ''    - Match the urgency and tone of the incoming email'' @ [CHR 0x0A] @
                ''    - Are grammatically correct and professional'' @ [CHR 0x0A] @
                ''    - Include all necessary information from context'' @ [CHR 0x0A] @
                ''    - Are appropriately concise (no unnecessary verbosity)'' @ [CHR 0x0A] @
                [CHR 0x0A] @
                ''    Edge Cases:'' @ [CHR 0x0A] @
                ''    - If email is unclear, ask clarifying questions in response'' @ [CHR 0x0A] @
                ''    - If context is insufficient, note what information is missing'' @ [CHR 0x0A] @
                ''    - If tone is difficult to determine, default to professional/formal'' @ [CHR 0x0A] @
                ''    ''),
     body = [
       \<lparr>field_name = ''email'', annotation = Some Str, kind = InputField,
          desc = Some (''Incoming email to respond to (with subject and body)'')\<rparr>,
       \<lparr>field_name = ''context'', annotation = Some Str, kind = InputField,
          desc = Some (''Background information, facts, or data to incorporate into response'')\<rparr>,
       \<lparr>field_name = ''response_goal'', annotation = Some Str, kind = InputField,
          desc = Some (''Primary goal of response: answer_question, schedule_meeting, '' @
                     ''provide_update, decline_request, etc.'')\<rparr>,
       \<lparr>field_name = ''response'', annotation = Some Str, kind = OutputField,
          desc = Some (''Complete email response including greeting and signature. Length: '' @
                     ''150-400 words. Must be professional and address all points from '' @
                     ''original email.'')\<rparr>,
       \<lparr>field_name = ''tone'', annotation = Some (Literal [''formal'', ''professional'', ''friendly'', ''casual'']), kind = OutputField,
          desc = Some (''Tone used in response, matching the incoming email'' @ [CHR 0x27] @ ''s tone'')\<rparr>,
       \<lparr>field_name = ''urgency'', annotation = Some (Literal [''high'', ''medium'', ''low'']), kind = OutputField,
          desc = Some (''Response urgency level based on original email'')\<rparr>,
       \<lparr>field_name = ''confidence'', annotation = Some (Literal [''high'', ''medium'', ''low'']), kind = OutputField,
          desc = Some (''Confidence in response quality: high = all information available, clear '' @
                     ''request; medium = some ambiguity; low = insufficient context or unclear '' @
                     ''request'')\<rparr>,
       \<lparr>field_name = ''flags'', annotation = Some Str, kind = OutputField,
          desc = Some (''Any issues or notes for human review. Use '' @ [CHR 0x27] @ ''None'' @ [CHR 0x27] @ '' if no issues. Example: '' @
                     [CHR 0x27] @ ''Missing pricing information'' @ [CHR 0x27] @ '' or '' @ [CHR 0x27] @ ''Legal review recommended'' @ [CHR 0x27])\<rparr>]\<rparr>"

definition FinancialReportAnalyzer :: signature where
  "FinancialReportAnalyzer = \<lparr>class_name = ''FinancialReportAnalyzer'',
     doc = Some (''Analyze financial reports for compliance and risk assessment.'' @ [CHR 0x0A] @
                [CHR 0x0A] @
                ''    Extract structured financial data and identify potential red flags '' @
                ''from'' @ [CHR 0x0A] @
                ''    quarterly and annual financial reports. This signature is designed '' @
                ''for'' @ [CHR 0x0A] @
                ''    compliance teams and auditors.'' @ [CHR 0x0A] @
                [CHR 0x0A] @
                ''    Requirements:'' @ [CHR 0x0A] @
                ''    - Extract only explicitly stated metrics (no speculation)'' @ [CHR 0x0A] @
                ''    - Cite exact locations in report for all extracted data'' @ [CHR 0x0A] @
                ''    - Flag any anomalies or concerning patterns'' @ [CHR 0x0A] @
                ''    - Assess confidence based on report clarity and completeness'' @ [CHR 0x0A] @
                [CHR 0x0A] @
                ''    Compliance Notes:'' @ [CHR 0x0A] @
                ''    - All metrics must be traceable to source document'' @ [CHR 0x0A] @
                ''    - Uncertainty must be explicitly communicated'' @ [CHR 0x0A] @
                ''    - Red flags should reference specific regulatory concerns'' @ [CHR 0x0A] @
                ''    - Evidence field is required for audit trail'' @ [CHR 0x0A] @
                [CHR 0x0A] @
                ''    Supported Report Types: 10-K, 10-Q, 8-K, Annual Report, Quarterly '' @
                ''Report'' @ [CHR 0x0A] @
                ''    ''),
     body = [
       \<lparr>field_name = ''report_text'', annotation = Some Str, kind = InputField,
          desc = Some (''Full text of financial report or relevant sections (500-10000 words)'')\<rparr>,
       \<lparr>field_name = ''report_type'', annotation = Some (Literal [''10-K'', ''10-Q'', ''8-K'', ''annual'', ''quarterly'', ''other'']), kind = InputField,
          desc = Some (''Type of financial report being analyzed'')\<rparr>,
       \<lparr>field_name = ''fiscal_period'', annotation = Some Str, kind = InputField,
          desc = Some (''Fiscal period covered (e.g., '' @ [CHR 0x27] @ ''Q3 2024'' @ [CHR 0x27] @ '', '' @ [CHR 0x27] @ ''FY 2023'' @ [CHR 0x27] @ '')'')\<rparr>,
       \<lparr>field_name = ''focus_areas'', annotation = Some Str, kind = InputField,
          desc = Some (''Specific areas to focus on: revenue, expenses, cash_flow, debt, all '' @
                     ''(comma-separated)'')\<rparr>,
       \<lparr>field_name = ''revenue'', annotation = Some Str, kind = OutputField,
          desc = Some (''Revenue figure with currency and period. Use '' @ [CHR 0x27] @ ''Not stated'' @ [CHR 0x27] @ '' if not found. '' @
                     ''Example: '' @ [CHR 0x27] @ ''$45.2M for Q3 2024'' @ [CHR 0x27])\<rparr>,
       \<lparr>field_name = ''net_income'', annotation = Some Str, kind = OutputField,
          desc = Some (''Net income/loss with currency. Example: '' @ [CHR 0x27] @ ''$12.5M profit'' @ [CHR 0x27] @ '' or '' @ [CHR 0x27] @ ''$3.2M loss'' @ [CHR 0x27])\<rparr>,
       \<lparr>field_name = ''cash_position'', annotation = Some Str, kind = OutputField,
          desc = Some (''Cash and cash equivalents. Example: '' @ [CHR 0x27] @ ''$78.3M as of Sep 30, 2024'' @ [CHR 0x27])\<rparr>,
       \<lparr>field_name = ''debt_level'', annotation = Some Str, kind = OutputField,
          desc = Some (''Total debt or debt-to-equity ratio if stated. Use '' @ [CHR 0x27] @ ''Not disclosed'' @ [CHR 0x27] @ '' if '' @
                     ''absent.'')\<rparr>,
       \<lparr>field_name = ''red_flags'', annotation = Some Str, kind = OutputField,
          desc = Some (''Identified red flags or concerns as numbered list. Include: declining '' @
                     ''metrics, unusual patterns, missing disclosures, going concern warnings. '' @
                     ''Use '' @ [CHR 0x27] @ ''None identified'' @ [CHR 0x27] @ '' if no concerns found. Example: '' @ [CHR 0x27] @ ''1. Revenue down '' @
                     ''15% YoY, 2. Debt increased 40% QoQ'' @ [CHR 0x27])\<rparr>,
       \<lparr>field_name = ''risk_level'', annotation = Some (Literal [''low'', ''moderate'', ''high'', ''critical'']), kind = OutputField,
          desc = Some (''Overall risk assessment: low = strong financials, no concerns; moderate '' @
                     ''= some weaknesses but manageable; high = significant concerns requiring '' @
                     ''attention; critical = going concern or severe issues'')\<rparr>,
       \<lparr>field_name = ''confidence'', annotation = Some (Literal [''high'', ''medium'', ''low'']), kind = OutputField,
          desc = Some (''Confidence in analysis: high = complete report, clear metrics, detailed '' @
                     ''disclosures; medium = some missing data or ambiguity; low = incomplete '' @
                     ''report or unclear presentation'')\<rparr>,
       \<lparr>field_name = ''evidence'', annotation = Some Str, kind = OutputField,
          desc = Some (''Direct quotes from report supporting key findings. Format: '' @ [CHR 0x27] @ ''- [Metric]: '' @
                     [CHR 0x22] @ ''exact quote from report'' @ [CHR 0x22] @ '' (page X)'' @ [CHR 0x27] @ ''. Provide 3-5 key quotes for audit '' @
                     ''trail.'')\<rparr>,
       \<lparr>field_name = ''missing_data'', annotation = Some Str, kind = OutputField,
          desc = Some (''List of expected data not found in report. Use '' @ [CHR 0x27] @ ''All expected data '' @
                     ''present'' @ [CHR 0x27] @ '' if complete. Example: '' @ [CHR 0x27] @ ''Cash flow statement, segment breakdowns'' @ [CHR 0x27])\<rparr>]\<rparr>"

definition solution :: "signature list" where
  "solution =
     [BlogTitleGenerator, ProductReviewAnalyzer, MeetingNotesExtractor,
      EmailResponseV1, EmailResponseV2, EmailResponseV3, FinancialReportAnalyzer]"

subsection \<open>challenge/starter\_code.py\<close>

text \<open>
  The starter file declares the same seven class names as the solution; every body is
  \<^verbatim>\<open>pass\<close> between TODO comments: no docstring and no field. The definitions carry the
  prefix \<open>starter_\<close> to keep them apart from the solution's.
\<close>

definition starter_BlogTitleGenerator :: signature where
  "starter_BlogTitleGenerator = \<lparr>class_name = ''BlogTitleGenerator'',
     doc = None,
     body = []\<rparr>"

definition starter_ProductReviewAnalyzer :: signature where
  "starter_ProductReviewAnalyzer = \<lparr>class_name = ''ProductReviewAnalyzer'',
     doc = None,
     body = []\<rparr>"

definition starter_MeetingNotesExtractor :: signature where
  "starter_MeetingNotesExtractor = \<lparr>class_name = ''MeetingNotesExtractor'',
     doc = None,
     body = []\<rparr>"

definition starter_EmailResponseV1 :: signature where
  "starter_EmailResponseV1 = \<lparr>class_name = ''EmailResponseV1'',
     doc = None,
     body = []\<rparr>"

definition starter_EmailResponseV2 :: signature where
  "starter_EmailResponseV2 = \<lparr>class_name = ''EmailResponseV2'',
     doc = None,
     body = []\<rparr>"

definition starter_EmailResponseV3 :: signature where
  "starter_EmailResponseV3 = \<lparr>class_name = ''EmailResponseV3'',
     doc = None,
     body = []\<rparr>"

definition starter_FinancialReportAnalyzer :: signature where
  "starter_FinancialReportAnalyzer = \<lparr>class_name = ''FinancialReportAnalyzer'',
     doc = None,
     body = []\<rparr>"

definition starter_code :: "signature list" where
  "starter_code =
     [starter_BlogTitleGenerator, starter_ProductReviewAnalyzer,
      starter_MeetingNotesExtractor, starter_EmailResponseV1, starter_EmailResponseV2,
      starter_EmailResponseV3, starter_FinancialReportAnalyzer]"

definition corpus :: "signature list" where
  "corpus = annotated_examples @ solution @ starter_code"

section \<open>The structural invariant of a contract\<close>

text \<open>
  Read as a contract, a signature class has the docstring as description and its
  declarations as fields, inputs and outputs in one namespace.
\<close>

definition field_names :: "signature \<Rightarrow> string list" where
  "field_names c = map field_name (body c)"

definition input_fields :: "signature \<Rightarrow> field_decl list" where
  "input_fields c = filter (\<lambda>f. kind f = InputField) (body c)"

definition output_fields :: "signature \<Rightarrow> field_decl list" where
  "output_fields c = filter (\<lambda>f. kind f = OutputField) (body c)"

definition contract_invariant :: "signature \<Rightarrow> bool" where
  "contract_invariant c \<longleftrightarrow>
     distinct (field_names c) \<and> input_fields c \<noteq> [] \<and> output_fields c \<noteq> []"

section \<open>The demonstration loop of solution.py\<close>

text \<open>
  Under the main guard, solution.py builds the list \<^verbatim>\<open>signatures\<close> of (title, class)
  pairs and, for each pair, prints the title, a rule and the line
  \<^verbatim>\<open>f"Docstring: {sig_class.__doc__[:100]}..."\<close>. Slicing \<^verbatim>\<open>None\<close> raises
  \<^verbatim>\<open>TypeError\<close>; slicing a string never fails and keeps at most the first 100
  characters.
\<close>

datatype error = TypeError

definition signatures :: "(string \<times> signature) list" where
  "signatures =
     [(''Task 1: Blog Title Generator'', BlogTitleGenerator),
      (''Task 2: Product Review Analyzer'', ProductReviewAnalyzer),
      (''Task 3: Meeting Notes Extractor'', MeetingNotesExtractor),
      (''Task 4 V1: Email Response (Simple)'', EmailResponseV1),
      (''Task 4 V2: Email Response (Descriptive)'', EmailResponseV2),
      (''Task 4 V3: Email Response (Production)'', EmailResponseV3),
      (''Bonus: Financial Report Analyzer'', FinancialReportAnalyzer)]"

definition doc_slice :: "signature \<Rightarrow> error + string" where
  "doc_slice sig_class =
     (case doc sig_class of
        None \<Rightarrow> Inl TypeError
      | Some d \<Rightarrow> Inr (take 100 d))"

definition docstring_line :: "signature \<Rightarrow> error + string" where
  "docstring_line sig_class =
     (case doc_slice sig_class of
        Inl e \<Rightarrow> Inl e
      | Inr s \<Rightarrow> Inr (''Docstring: '' @ s @ ''...''))"

section \<open>What running a file does\<close>

text \<open>
  Each file is a script. Its run is embedded as the sequence of events its own statements
  cause, in execution order: an import, a call of a named function, and the creation of
  a class at the end of a \<^verbatim>\<open>class\<close> statement. The text a \<^verbatim>\<open>print\<close> writes plays no
  part here and is left out of the event. Comments cause no event. A statement that
  raises ends the run, so what a run really did is an initial segment of the sequence.
\<close>

datatype event = Import string | Call string | ClassDef string

text \<open>
  A \<^verbatim>\<open>class\<close> statement runs its body, one \<^verbatim>\<open>dspy.InputField(...)\<close> or
  \<^verbatim>\<open>dspy.OutputField(...)\<close> call per field, then creates the class.
\<close>

definition field_call :: "field_decl \<Rightarrow> event" where
  "field_call f =
     (case kind f of
        InputField \<Rightarrow> Call ''dspy.InputField''
      | OutputField \<Rightarrow> Call ''dspy.OutputField'')"

definition class_statement :: "signature \<Rightarrow> event list" where
  "class_statement c = map field_call (body c) @ [ClassDef (class_name c)]"

definition prints :: "nat \<Rightarrow> event list" where
  "prints n = replicate n (Call ''print'')"

text \<open>
  annotated\_examples.py has no main guard: two imports, then blocks of \<^verbatim>\<open>print\<close>
  statements between the eight class statements (4 prints on lines 21 to 29, 7 on lines
  50 to 61, 7 on 90 to 101, 8 on 152 to 164, 6 on 196 to 206, 6 on 251 to 261, 4 on 270
  to 273, 5 on 282 to 286 and 17 on 313 to 411).
\<close>

definition annotated_examples_run :: "event list" where
  "annotated_examples_run =
     [Import ''dspy'', Import ''typing''] @ prints 4 @
     class_statement BasicQA @ prints 7 @
     class_statement DescriptiveQA @ prints 7 @
     class_statement ProductionQA @ prints 8 @
     class_statement EmailClassifier @ prints 6 @
     class_statement ArticleExtractor @ prints 6 @
     class_statement SentimentV1 @ prints 4 @
     class_statement SentimentV2 @ prints 5 @
     class_statement SentimentV3 @ prints 17"

text \<open>
  starter\_code.py: two imports, the seven class statements and, under
  \<^verbatim>\<open>if __name__ == "__main__"\<close>, six prints (lines 157 to 159 and 195 to 197); all else
  in that block is commented out. \<open>as_main\<close> says whether the file runs as a script.
\<close>

definition starter_code_run :: "bool \<Rightarrow> event list" where
  "starter_code_run as_main =
     [Import ''dspy'', Import ''typing''] @
     concat (map class_statement starter_code) @
     (if as_main then prints 6 else [])"

text \<open>
  solution.py: two imports, the seven class statements and the main block: three prints,
  the \<^verbatim>\<open>signatures\<close> list, the loop over it, and eight more prints (lines 381 to 414).
  The loop body prints three lines, evaluates the two comprehensions
  \<^verbatim>\<open>[f for f in sig_class.__annotations__ if hasattr(sig_class, f) and
      isinstance(getattr(sig_class, f), dspy.InputField)]\<close>
  (the second with \<^verbatim>\<open>dspy.OutputField\<close>) and prints \<^verbatim>\<open>len\<close> of each. What
  \<^verbatim>\<open>__annotations__\<close> holds and what \<^verbatim>\<open>hasattr\<close> answers is decided by the class
  object that dspy builds, so both are parameters: \<open>anns\<close> and \<open>has\<close>.
\<close>

definition comprehension :: "(signature \<Rightarrow> string \<Rightarrow> bool) \<Rightarrow> signature \<Rightarrow> string list \<Rightarrow> event list" where
  "comprehension has sig_class names =
     concat (map (\<lambda>f. Call ''hasattr'' #
                        (if has sig_class f then [Call ''getattr'', Call ''isinstance''] else []))
                 names)"

definition loop_body ::
  "(signature \<Rightarrow> string list) \<Rightarrow> (signature \<Rightarrow> string \<Rightarrow> bool) \<Rightarrow> string \<times> signature \<Rightarrow> event list" where
  "loop_body anns has = (\<lambda>(name, sig_class).
     prints 3 @
     comprehension has sig_class (anns sig_class) @
     comprehension has sig_class (anns sig_class) @
     [Call ''len'', Call ''print'', Call ''len'', Call ''print''])"

definition solution_run ::
  "bool \<Rightarrow> (signature \<Rightarrow> string list) \<Rightarrow> (signature \<Rightarrow> string \<Rightarrow> bool) \<Rightarrow> event list" where
  "solution_run as_main anns has =
     [Import ''dspy'', Import ''typing''] @
     concat (map class_statement solution) @
     (if as_main
      then prints 3 @ concat (map (loop_body anns has) signatures) @ prints 8
      else [])"

text \<open>
  The commented-out sections are the only places that mention a language model or an
  API key: \<^verbatim>\<open>import os\<close>, \<^verbatim>\<open>os.getenv("OPENAI_API_KEY")\<close>, \<^verbatim>\<open>dspy.LM(...)\<close>,
  \<^verbatim>\<open>dspy.configure(lm=lm)\<close>, \<^verbatim>\<open>dspy.Predict(...)\<close> and the call of the predictor it
  returns. \<open>model_event\<close> recognises these; \<open>local_event\<close> recognises what declaring
  classes and printing about them needs.
\<close>

fun model_event :: "event \<Rightarrow> bool" where
  "model_event (Import m) = (m = ''os'')"
| "model_event (Call f) =
     (f \<in> set [''os.getenv'', ''dspy.LM'', ''dspy.configure'', ''dspy.Predict'', ''predictor''])"
| "model_event (ClassDef c) = False"

fun local_event :: "event \<Rightarrow> bool" where
  "local_event (Import m) = (m \<in> set [''dspy'', ''typing''])"
| "local_event (Call f) =
     (f \<in> set [''print'', ''dspy.InputField'', ''dspy.OutputField'',
                ''hasattr'', ''getattr'', ''isinstance'', ''len''])"
| "local_event (ClassDef c) = True"

definition quiet :: "event list \<Rightarrow> bool" where
  "quiet es \<longleftrightarrow> list_all local_event es \<and> \<not> list_ex model_event es"

section \<open>Every declared contract is well formed\<close>

lemmas invariant_defs =
  contract_invariant_def field_names_def input_fields_def output_fields_def

lemma BasicQA_invariant: "contract_invariant BasicQA"
  by (simp add: invariant_defs BasicQA_def)

lemma DescriptiveQA_invariant: "contract_invariant DescriptiveQA"
  by (simp add: invariant_defs DescriptiveQA_def)

lemma ProductionQA_invariant: "contract_invariant ProductionQA"
  by (simp add: invariant_defs ProductionQA_def)

lemma EmailClassifier_invariant: "contract_invariant EmailClassifier"
  by (simp add: invariant_defs EmailClassifier_def)

lemma ArticleExtractor_invariant: "contract_invariant ArticleExtractor"
  by (simp add: invariant_defs ArticleExtractor_def)

lemma SentimentV1_invariant: "contract_invariant SentimentV1"
  by (simp add: invariant_defs SentimentV1_def)

lemma SentimentV2_invariant: "contract_invariant SentimentV2"
  by (simp add: invariant_defs SentimentV2_def)

lemma SentimentV3_invariant: "contract_invariant SentimentV3"
  by (simp add: invariant_defs SentimentV3_def)

lemma BlogTitleGenerator_invariant: "contract_invariant BlogTitleGenerator"
  by (simp add: invariant_defs BlogTitleGenerator_def)

lemma ProductReviewAnalyzer_invariant: "contract_invariant ProductReviewAnalyzer"
  by (simp add: invariant_defs ProductReviewAnalyzer_def)

lemma MeetingNotesExtractor_invariant: "contract_invariant MeetingNotesExtractor"
  by (simp add: invariant_defs MeetingNotesExtractor_def)

lemma EmailResponseV1_invariant: "contract_invariant EmailResponseV1"
  by (simp add: invariant_defs EmailResponseV1_def)

lemma EmailResponseV2_invariant: "contract_invariant EmailResponseV2"
  by (simp add: invariant_defs EmailResponseV2_def)

lemma EmailResponseV3_invariant: "contract_invariant EmailResponseV3"
  by (simp add: invariant_defs EmailResponseV3_def)

lemma FinancialReportAnalyzer_invariant: "contract_invariant FinancialReportAnalyzer"
  by (simp add: invariant_defs FinancialReportAnalyzer_def)

lemma annotated_examples_invariant: "list_all contract_invariant annotated_examples"
  by (simp add: annotated_examples_def BasicQA_invariant DescriptiveQA_invariant
      ProductionQA_invariant EmailClassifier_invariant ArticleExtractor_invariant
      SentimentV1_invariant SentimentV2_invariant SentimentV3_invariant)

lemma solution_invariant: "list_all contract_invariant solution"
  by (simp add: solution_def BlogTitleGenerator_invariant ProductReviewAnalyzer_invariant
      MeetingNotesExtractor_invariant EmailResponseV1_invariant EmailResponseV2_invariant
      EmailResponseV3_invariant FinancialReportAnalyzer_invariant)

lemma starter_code_empty:
  "list_all (\<lambda>c. body c = [] \<and> \<not> contract_invariant c) starter_code"
  by (simp add: starter_code_def invariant_defs starter_BlogTitleGenerator_def
      starter_ProductReviewAnalyzer_def starter_MeetingNotesExtractor_def
      starter_EmailResponseV1_def starter_EmailResponseV2_def starter_EmailResponseV3_def
      starter_FinancialReportAnalyzer_def)

text \<open>
  Claim C1, as amended. Every signature class declared in annotated\_examples.py and in
  solution.py satisfies the structural invariant: its field names are unique across
  inputs and outputs together, and it declares at least one input field and at least one
  output field. The seven classes of the challenge starter file are placeholders whose
  bodies declare no field at all, so they have neither an input nor an output and do
  not satisfy the invariant.
\<close>

theorem declared_contracts_invariant:
  "list_all contract_invariant (annotated_examples @ solution) \<and>
   list_all (\<lambda>c. body c = [] \<and> \<not> contract_invariant c) starter_code"
  by (simp add: annotated_examples_invariant solution_invariant starter_code_empty)

text \<open>
  Claim C1 as stated, over the whole corpus with the starter classes included, fails: the
  starter file's \<^verbatim>\<open>BlogTitleGenerator\<close> belongs to the corpus and has no input field and
  no output field.
\<close>

theorem starter_BlogTitleGenerator_breaks_invariant:
  "starter_BlogTitleGenerator \<in> set corpus \<and>
   input_fields starter_BlogTitleGenerator = [] \<and>
   output_fields starter_BlogTitleGenerator = [] \<and>
   \<not> contract_invariant starter_BlogTitleGenerator"
  by (simp add: corpus_def starter_code_def invariant_defs starter_BlogTitleGenerator_def)

section \<open>The docstring slice never fails\<close>

lemma doc_slice_Some: "doc c = Some d \<Longrightarrow> doc_slice c = Inr (take 100 d)"
  by (simp add: doc_slice_def)

lemma docstring_line_Some:
  "doc c = Some d \<Longrightarrow> docstring_line c = Inr (''Docstring: '' @ take 100 d @ ''...'')"
  by (simp add: docstring_line_def doc_slice_def)

text \<open>
  Claim C10. The list \<^verbatim>\<open>signatures\<close> of solution.py holds seven classes, and each of them
  defines a docstring that is not \<^verbatim>\<open>None\<close> and not empty. So for each of them
  \<^verbatim>\<open>sig_class.__doc__[:100]\<close> evaluates to the first 100 characters of the docstring
  and the line is printed; the \<^verbatim>\<open>TypeError\<close> of slicing \<^verbatim>\<open>None\<close> does not arise.
\<close>

theorem signatures_doc_slice_defined:
  "length signatures = 7 \<and>
   list_all (\<lambda>(name, sig_class).
      case doc sig_class of
        None \<Rightarrow> False
      | Some d \<Rightarrow> d \<noteq> [] \<and> doc_slice sig_class = Inr (take 100 d) \<and>
          docstring_line sig_class = Inr (''Docstring: '' @ take 100 d @ ''...''))
     signatures"
  by (simp add: signatures_def doc_slice_Some docstring_line_Some
      BlogTitleGenerator_def ProductReviewAnalyzer_def MeetingNotesExtractor_def
      EmailResponseV1_def EmailResponseV2_def EmailResponseV3_def
      FinancialReportAnalyzer_def)

section \<open>No run reaches a language model\<close>

lemma local_not_model: "local_event e \<Longrightarrow> \<not> model_event e"
  by (cases e) auto

lemma quiet_iff: "quiet es \<longleftrightarrow> list_all local_event es"
  unfolding quiet_def by (induction es) (auto dest: local_not_model)

lemma quiet_Nil: "quiet []"
  by (simp add: quiet_iff)

lemma quiet_Cons: "quiet (e # es) \<longleftrightarrow> local_event e \<and> quiet es"
  by (simp add: quiet_iff)

lemma quiet_append: "quiet (xs @ ys) \<longleftrightarrow> quiet xs \<and> quiet ys"
  by (simp add: quiet_iff)

lemma quiet_take: "quiet es \<Longrightarrow> quiet (take n es)"
  unfolding quiet_iff list_all_iff by (auto dest: in_set_takeD)

lemma quiet_prints: "quiet (prints n)"
  by (simp add: quiet_iff prints_def list_all_iff)

lemma local_field_call: "local_event (field_call f)"
  by (cases "kind f") (simp_all add: field_call_def)

lemma quiet_class_statement: "quiet (class_statement c)"
  by (simp add: quiet_iff class_statement_def list_all_iff local_field_call)

lemma quiet_concat: "list_all (\<lambda>x. quiet (f x)) xs \<Longrightarrow> quiet (concat (map f xs))"
  by (induction xs) (simp_all add: quiet_append quiet_Nil)

lemma quiet_comprehension: "quiet (comprehension has c names)"
  by (induction names)
    (simp_all add: comprehension_def quiet_append quiet_Cons quiet_Nil)

lemma quiet_loop_body: "quiet (loop_body anns has p)"
  by (cases p)
    (simp add: loop_body_def quiet_append quiet_Cons quiet_Nil quiet_prints
      quiet_comprehension)

lemma quiet_annotated_examples_run: "quiet annotated_examples_run"
  unfolding annotated_examples_run_def
  by (simp add: quiet_append quiet_Cons quiet_prints quiet_class_statement)

lemma quiet_starter_code_run: "quiet (starter_code_run as_main)"
  unfolding starter_code_run_def
  by (simp add: quiet_append quiet_Cons quiet_Nil quiet_prints quiet_class_statement
      quiet_concat list_all_iff)

lemma quiet_solution_run: "quiet (solution_run as_main anns has)"
  unfolding solution_run_def
  by (simp add: quiet_append quiet_Cons quiet_Nil quiet_prints quiet_class_statement
      quiet_loop_body quiet_concat list_all_iff)

text \<open>
  Claim C9. At no point of a run of any of the three files is a language model invoked,
  an API key read or the network used by the file's statements: up to any point \<open>n\<close>,
  whether or not the file runs as a script and whatever the class objects answer to the
  introspection of solution.py, every event is an import of \<^verbatim>\<open>dspy\<close> or \<^verbatim>\<open>typing\<close>, a
  field declaration inside a class body, the creation of a class, a \<^verbatim>\<open>print\<close>, or one of
  the built-ins \<^verbatim>\<open>hasattr\<close>, \<^verbatim>\<open>getattr\<close>, \<^verbatim>\<open>isinstance\<close>, \<^verbatim>\<open>len\<close> with which solution.py
  counts the fields it prints; none is one of the calls of the commented-out sections.
\<close>

theorem runs_are_quiet:
  "quiet (take n annotated_examples_run) \<and>
   quiet (take n (solution_run as_main anns has)) \<and>
   quiet (take n (starter_code_run as_main))"
  by (simp add: quiet_take quiet_annotated_examples_run quiet_solution_run
      quiet_starter_code_run)

end
